theory Spec2Isabelle
  imports Complex_Main
begin

section \<open>Python values, exceptions and text\<close>

text \<open>
  The manifest is whatever \<^verbatim>\<open>json.load\<close> returns: a JSON value as a Python object. A
  dict is an association list in insertion order (JSON object keys are strings and, after
  parsing, distinct). Text is a byte string in UTF-8, so the two marks that
  \<^verbatim>\<open>Score.add\<close> puts in front of a message are three bytes each.
\<close>

datatype pyval =
    PNone
  | PBool bool
  | PInt int
  | PFloat rat
  | PStr string
  | PList "pyval list"
  | PDict "(string \<times> pyval) list"

text \<open>
  A raised exception: whether it is an instance of \<^verbatim>\<open>Exception\<close>, which is what an
  \<^verbatim>\<open>except Exception\<close> clause catches (\<^verbatim>\<open>SystemExit\<close> and \<^verbatim>\<open>KeyboardInterrupt\<close>
  are not), the name of its class, and what \<^verbatim>\<open>str(e)\<close> does: the class of a candidate's
  exception may define \<^verbatim>\<open>__str__\<close>, which returns a text or raises in turn.
\<close>

datatype exn = Exn (catchable: bool) (exn_type: string) (exn_str: "exn + string")

text \<open>An exception raised by the interpreter or the standard library.\<close>

definition builtin_error :: "string \<Rightarrow> string \<Rightarrow> exn" where
  "builtin_error ty msg = Exn True ty (Inr msg)"

fun truthy :: "pyval \<Rightarrow> bool" where
  "truthy PNone = False"
| "truthy (PBool b) = b"
| "truthy (PInt n) = (n \<noteq> 0)"
| "truthy (PFloat r) = (r \<noteq> 0)"
| "truthy (PStr s) = (s \<noteq> [])"
| "truthy (PList xs) = (xs \<noteq> [])"
| "truthy (PDict kvs) = (kvs \<noteq> [])"

fun type_name :: "pyval \<Rightarrow> string" where
  "type_name PNone = ''NoneType''"
| "type_name (PBool b) = ''bool''"
| "type_name (PInt n) = ''int''"
| "type_name (PFloat r) = ''float''"
| "type_name (PStr s) = ''str''"
| "type_name (PList xs) = ''list''"
| "type_name (PDict kvs) = ''dict''"

definition apos :: string where
  "apos = [CHR 0x27]"

definition check_mark :: string where
  "check_mark = [CHR 0xE2, CHR 0x9C, CHR 0x94]"

definition cross_mark :: string where
  "cross_mark = [CHR 0xE2, CHR 0x9D, CHR 0x8C]"

definition en_dash :: string where
  "en_dash = [CHR 0xE2, CHR 0x80, CHR 0x93]"

definition no_attribute :: "pyval \<Rightarrow> string \<Rightarrow> exn" where
  "no_attribute v a =
     builtin_error ''AttributeError''
       (apos @ type_name v @ apos @ '' object has no attribute '' @ apos @ a @ apos)"

text \<open>\<^verbatim>\<open>v.get(key, default)\<close>: only a dict has the method.\<close>

definition py_get :: "pyval \<Rightarrow> string \<Rightarrow> pyval \<Rightarrow> exn + pyval" where
  "py_get v k dflt =
     (case v of
        PDict kvs \<Rightarrow> Inr (case map_of kvs k of None \<Rightarrow> dflt | Some x \<Rightarrow> x)
      | _ \<Rightarrow> Inl (no_attribute v ''get''))"

text \<open>\<^verbatim>\<open>list(v.values())\<close> and \<^verbatim>\<open>v.keys()\<close>.\<close>

definition py_values :: "pyval \<Rightarrow> exn + pyval list" where
  "py_values v =
     (case v of
        PDict kvs \<Rightarrow> Inr (map snd kvs)
      | _ \<Rightarrow> Inl (no_attribute v ''values''))"

definition py_keys :: "pyval \<Rightarrow> exn + string list" where
  "py_keys v =
     (case v of
        PDict kvs \<Rightarrow> Inr (map fst kvs)
      | _ \<Rightarrow> Inl (no_attribute v ''keys''))"

text \<open>\<^verbatim>\<open>v[key]\<close> with a string key.\<close>

definition py_getitem :: "pyval \<Rightarrow> string \<Rightarrow> exn + pyval" where
  "py_getitem v k =
     (case v of
        PDict kvs \<Rightarrow>
          (case map_of kvs k of
             None \<Rightarrow> Inl (builtin_error ''KeyError'' (apos @ k @ apos))
           | Some x \<Rightarrow> Inr x)
      | _ \<Rightarrow> Inl (builtin_error ''TypeError'' ''object is not subscriptable with a str key''))"

text \<open>\<^verbatim>\<open>sep.join(xs)\<close>.\<close>

fun str_join :: "string \<Rightarrow> string list \<Rightarrow> string" where
  "str_join sep [] = []"
| "str_join sep [x] = x"
| "str_join sep (x # y # ys) = x @ sep @ str_join sep (y # ys)"

text \<open>
  \<^verbatim>\<open>os.path.join(a, b)\<close> on a POSIX host: an absolute second component replaces the
  first. A second component that is not a string raises TypeError.
\<close>

definition os_path_join :: "string \<Rightarrow> string \<Rightarrow> string" where
  "os_path_join a b =
     (if take 1 b = ''/'' then b
      else if a = [] \<or> last a = CHR ''/'' then a @ b
      else a @ ''/'' @ b)"

definition path_join :: "string \<Rightarrow> pyval \<Rightarrow> exn + string" where
  "path_join a v =
     (case v of
        PStr b \<Rightarrow> Inr (os_path_join a b)
      | _ \<Rightarrow> Inl (builtin_error ''TypeError''
                (''join() argument must be str, bytes, or os.PathLike object, not '' @
                 apos @ type_name v @ apos)))"

section \<open>The submission and the host\<close>

text \<open>
  A call of a candidate method either raises or returns an object. Of a returned object the
  evaluator only ever takes the truth value (\<^verbatim>\<open>all([...])\<close> on line 182), which runs the
  object's \<^verbatim>\<open>__bool__\<close> and so may raise as well.
\<close>

datatype outcome = Returns "exn + bool" | Raises exn

text \<open>
  What \<^verbatim>\<open>hasattr(crud_obj, name)\<close> meets when it looks the attribute up: the attribute,
  an AttributeError, or any other exception (a property or a \<^verbatim>\<open>__getattr__\<close> of the
  candidate's class is candidate code).
\<close>

datatype attr_lookup = Present | Absent | LookupRaises exn

text \<open>
  The instantiated CRUD object. Everything the evaluator does with it runs candidate code,
  which works on the candidate's own state \<open>'c\<close> (object fields, module globals, every
  database the candidate opened). The four methods also see the \<^verbatim>\<open>sample_data\<close> dict:
  \<^verbatim>\<open>create\<close> is handed the dict itself, not a copy, so from then on the candidate may
  change what it holds. A method therefore maps its arguments and the pair of the dict's
  content and the candidate's state to an outcome and a new pair. \<open>set_override\<close> is what
  \<^verbatim>\<open>setattr(crud_obj, "conn_override", fake_connection)\<close> does: it raises (a class with
  slots, a \<^verbatim>\<open>__setattr__\<close> of its own) or leaves the object in a new state.
\<close>

record 'c crud_object =
  find_attr :: "string \<Rightarrow> 'c \<Rightarrow> attr_lookup \<times> 'c"
  set_override :: "'c \<Rightarrow> exn + 'c"
  create_m :: "pyval \<Rightarrow> pyval \<times> 'c \<Rightarrow> outcome \<times> (pyval \<times> 'c)"
  read_m :: "pyval \<Rightarrow> pyval \<times> 'c \<Rightarrow> outcome \<times> (pyval \<times> 'c)"
  update_m :: "pyval \<Rightarrow> pyval \<Rightarrow> pyval \<times> 'c \<Rightarrow> outcome \<times> (pyval \<times> 'c)"
  delete_m :: "pyval \<Rightarrow> pyval \<times> 'c \<Rightarrow> outcome \<times> (pyval \<times> 'c)"
  initial :: 'c

text \<open>
  A loaded module is its namespace, a plain module object as \<^verbatim>\<open>module_from_spec\<close> makes
  it. Of a member the evaluator only ever calls it without arguments (\<^verbatim>\<open>CRUDClass()\<close>),
  so a member is the outcome of that call; the one other member is the sandbox factory the
  evaluator itself stores there.
\<close>

datatype 'c member = Callable "exn + 'c crud_object" | SandboxFactory

type_synonym 'c pymodule = "string \<Rightarrow> 'c member option"

text \<open>The catalog of one SQLite database: the table names in \<^verbatim>\<open>sqlite_master\<close>.\<close>

type_synonym catalog = "string list"

text \<open>
  \<^verbatim>\<open>subprocess.run(["pycodestyle", path], ...)\<close>: FileNotFoundError when the program is
  not installed, any other exception (PermissionError, an OSError) when it cannot be
  started or its output cannot be read, or the exit code.
\<close>

datatype lint = NotInstalled | LintRaises exn | ExitCode int

text \<open>
  Everything outside \<^verbatim>\<open>eval.py\<close> that one run observes: the file system, the JSON
  parser, the module loader running the submission's top-level code, the SQLite engine
  answering one statement on one database, Python's \<^verbatim>\<open>str\<close> on a value that is not a
  string, \<^verbatim>\<open>traceback.format_exc\<close>, and the linter subprocess.
\<close>

record 'c world =
  project_dir :: string
  file_exists :: "string \<Rightarrow> bool"
  read_json :: "string \<Rightarrow> exn + pyval"
  exec_module :: "string \<Rightarrow> exn + 'c pymodule"
  sqlite_execute :: "string \<Rightarrow> catalog \<Rightarrow> exn + catalog"
  str_builtin :: "pyval \<Rightarrow> string"
  format_exc :: "exn \<Rightarrow> string"
  pycodestyle :: "string \<Rightarrow> lint"

section \<open>eval.py\<close>

subsection \<open>Utilities\<close>

text \<open>\<^verbatim>\<open>dynamic_import\<close> (lines 12-16): the loader's outcome on that path.\<close>

definition dynamic_import :: "'c world \<Rightarrow> string \<Rightarrow> exn + 'c pymodule" where
  "dynamic_import W path = exec_module W path"

text \<open>\<^verbatim>\<open>load_metadata\<close> (lines 22-28).\<close>

definition load_metadata :: "'c world \<Rightarrow> exn + pyval" where
  "load_metadata W =
     (let readme_path = os_path_join (project_dir W) ''README.json''
      in if \<not> file_exists W readme_path
         then Inl (builtin_error ''Exception''
                (cross_mark @ '' Missing README.json '' @ en_dash @
                 '' naming conventions unknown.''))
         else read_json W readme_path)"

text \<open>\<^verbatim>\<open>class Score\<close> (lines 34-46).\<close>

record score =
  total_pts :: int
  earned :: int
  details :: "string list"

definition Score_init :: score where
  "Score_init = \<lparr>total_pts = 0, earned = 0, details = []\<rparr>"

definition add :: "int \<Rightarrow> bool \<Rightarrow> string \<Rightarrow> string \<Rightarrow> score \<Rightarrow> score" where
  "add points condition success_msg fail_msg s =
     (if condition
      then s\<lparr>total_pts := total_pts s + points,
             earned := earned s + points,
             details := details s @ [check_mark @ '' '' @ success_msg]\<rparr>
      else s\<lparr>total_pts := total_pts s + points,
             details := details s @ [cross_mark @ '' '' @ fail_msg]\<rparr>)"

text \<open>A bare \<^verbatim>\<open>score.details.append(msg)\<close> (lines 103, 148, 186).\<close>

definition details_append :: "string \<Rightarrow> score \<Rightarrow> score" where
  "details_append msg s = s\<lparr>details := details s @ [msg]\<rparr>"

text \<open>
  The report dict. \<^verbatim>\<open>finalize\<close> (lines 244-248) rounds \<^verbatim>\<open>earned\<close> to two digits,
  which leaves a Python int as it is.
\<close>

datatype report = ErrorReport string | ScoreReport int int "string list"

definition finalize :: "score \<Rightarrow> report" where
  "finalize s = ScoreReport (earned s) (total_pts s) (details s)"

subsection \<open>Reading the manifest (lines 56-71)\<close>

record ctx =
  meta :: pyval
  crud_class_name :: pyval
  sample_data :: pyval
  crud_path :: string
  db_path :: string

text \<open>
  The outcome is an escaping exception, an early \<^verbatim>\<open>{"error": ...}\<close> report, or the
  values the checks work with. The handler on lines 58-59 takes instances of
  \<^verbatim>\<open>Exception\<close> only and calls \<^verbatim>\<open>str(e)\<close> itself.
\<close>

definition prepare :: "'c world \<Rightarrow> exn + (report + ctx)" where
  "prepare W =
     (case load_metadata W of
        Inl e \<Rightarrow>
          (if catchable e
           then (case exn_str e of
                   Inl e' \<Rightarrow> Inl e'
                 | Inr msg \<Rightarrow> Inr (Inl (ErrorReport msg)))
           else Inl e)
      | Inr m \<Rightarrow>
     (case py_get m ''crud_module'' PNone of Inl e \<Rightarrow> Inl e | Inr crud_file \<Rightarrow>
     (case py_get m ''crud_class'' PNone of Inl e \<Rightarrow> Inl e | Inr cls \<Rightarrow>
     (case py_get m ''db_adapter'' PNone of Inl e \<Rightarrow> Inl e | Inr db_adapter_file \<Rightarrow>
     (case py_get m ''sample_data'' (PDict []) of Inl e \<Rightarrow> Inl e | Inr sd \<Rightarrow>
     (case py_get sd ''create'' (PDict []) of Inl e \<Rightarrow> Inl e | Inr sample \<Rightarrow>
        if \<not> truthy crud_file \<or> \<not> truthy cls
        then Inr (Inl (ErrorReport ''README.json must contain CRUD module + class name.''))
        else
     (case path_join (project_dir W) crud_file of Inl e \<Rightarrow> Inl e | Inr cp \<Rightarrow>
     (case path_join (project_dir W) db_adapter_file of Inl e \<Rightarrow> Inl e | Inr dp \<Rightarrow>
        Inr (Inr \<lparr>meta = m, crud_class_name = cls, sample_data = sample,
                  crud_path = cp, db_path = dp\<rparr>)))))))))"

subsection \<open>Test 1: file existence (lines 76-88)\<close>

definition test_file_existence :: "'c world \<Rightarrow> ctx \<Rightarrow> score \<Rightarrow> score" where
  "test_file_existence W c s =
     add 10 (file_exists W (db_path c)) ''DB adapter file found'' ''DB adapter file missing''
       (add 10 (file_exists W (crud_path c)) ''CRUD module found'' ''CRUD module missing'' s)"

subsection \<open>Test 2: import class (lines 96-110)\<close>

text \<open>\<^verbatim>\<open>getattr(mod, name)\<close> on the module loaded under the name \<^verbatim>\<open>crud_module\<close>.\<close>

definition py_getattr :: "'c pymodule \<Rightarrow> pyval \<Rightarrow> exn + 'c member" where
  "py_getattr md v =
     (case v of
        PStr a \<Rightarrow>
          (case md a of
             None \<Rightarrow> Inl (builtin_error ''AttributeError''
                        (''module '' @ apos @ ''crud_module'' @ apos @
                         '' has no attribute '' @ apos @ a @ apos))
           | Some x \<Rightarrow> Inr x)
      | _ \<Rightarrow> Inl (builtin_error ''TypeError''
                (''attribute name must be string, not '' @ apos @ type_name v @ apos)))"

text \<open>Calling a member without arguments.\<close>

definition call_member :: "'c member \<Rightarrow> exn + 'c crud_object" where
  "call_member x =
     (case x of
        Callable r \<Rightarrow> r
      | SandboxFactory \<Rightarrow> Inl (builtin_error ''TypeError'' ''not a CRUD class''))"

text \<open>The body of the \<^verbatim>\<open>try\<close> (lines 97-99).\<close>

definition import_class :: "'c world \<Rightarrow> ctx \<Rightarrow> exn + 'c crud_object" where
  "import_class W c =
     (case dynamic_import W (crud_path c) of
        Inl e \<Rightarrow> Inl e
      | Inr md \<Rightarrow>
          (case py_getattr md (crud_class_name c) of
             Inl e \<Rightarrow> Inl e
           | Inr cls \<Rightarrow> call_member cls))"

text \<open>
  The handler and the \<^verbatim>\<open>score.add\<close> after it (lines 101-110), with \<open>msg\<close> the text
  that \<^verbatim>\<open>str(e)\<close> returned; and the \<^verbatim>\<open>score.add\<close> alone after a successful import.
\<close>

definition import_failed :: "string \<Rightarrow> score \<Rightarrow> score" where
  "import_failed msg s =
     add 20 False ''CRUD class imported successfully'' ''Failed to load CRUD class''
       (details_append (cross_mark @ '' Could not import CRUD class: '' @ msg) s)"

definition import_succeeded :: "score \<Rightarrow> score" where
  "import_succeeded s =
     add 20 True ''CRUD class imported successfully'' ''Failed to load CRUD class'' s"

subsection \<open>Test 3: method existence (lines 118-130)\<close>

definition required :: "string list" where
  "required = [''create'', ''read'', ''update'', ''delete'']"

text \<open>
  \<^verbatim>\<open>hasattr(crud_obj, m)\<close>: true when the lookup finds the attribute, false on an
  AttributeError; any other exception of the lookup comes out of \<^verbatim>\<open>hasattr\<close>.
\<close>

definition hasattr :: "'c crud_object \<Rightarrow> string \<Rightarrow> 'c \<Rightarrow> (exn + bool) \<times> 'c" where
  "hasattr obj m st =
     (case find_attr obj m st of
        (Present, st') \<Rightarrow> (Inr True, st')
      | (Absent, st') \<Rightarrow> (Inr False, st')
      | (LookupRaises e, st') \<Rightarrow> (Inl e, st'))"

text \<open>The loop of lines 120-126; no \<^verbatim>\<open>try\<close> is around it.\<close>

fun test_method_existence ::
  "'c crud_object \<Rightarrow> string list \<Rightarrow> 'c \<Rightarrow> score \<Rightarrow> exn + (score \<times> 'c)" where
  "test_method_existence obj [] st s = Inr (s, st)"
| "test_method_existence obj (m # ms) st s =
     (case hasattr obj m st of
        (Inl e, st') \<Rightarrow> Inl e
      | (Inr b, st') \<Rightarrow>
          test_method_existence obj ms st'
            (add 5 b (''Method '' @ m @ ''() found'') (''Method '' @ m @ ''() missing'') s))"

text \<open>
  \<^verbatim>\<open>all(hasattr(crud_obj, m) for m in required)\<close> on line 129: the attributes are looked
  up again, one after the other, up to the first that is missing.
\<close>

fun all_methods :: "'c crud_object \<Rightarrow> string list \<Rightarrow> 'c \<Rightarrow> (exn + bool) \<times> 'c" where
  "all_methods obj [] st = (Inr True, st)"
| "all_methods obj (m # ms) st =
     (case hasattr obj m st of
        (Inl e, st') \<Rightarrow> (Inl e, st')
      | (Inr False, st') \<Rightarrow> (Inr False, st')
      | (Inr True, st') \<Rightarrow> all_methods obj ms st')"

subsection \<open>Test 4: SQLite patch (lines 136-158)\<close>

text \<open>
  \<^verbatim>\<open>fake_connection\<close> (lines 138-141): every call opens \<^verbatim>\<open>sqlite3.connect(":memory:")\<close>,
  a new private database with an empty catalog.
\<close>

definition fake_connection :: catalog where
  "fake_connection = []"

text \<open>
  \<^verbatim>\<open>setattr(module, name, fake_connection)\<close>: the name must be a string; a module
  refuses a function as its \<^verbatim>\<open>__class__\<close> and has a read-only \<^verbatim>\<open>__dict__\<close>; any other
  attribute is set, whether or not the module had one of that name.
\<close>

definition py_setattr :: "'c pymodule \<Rightarrow> pyval \<Rightarrow> exn + 'c pymodule" where
  "py_setattr md v =
     (case v of
        PStr a \<Rightarrow>
          (if a = ''__class__''
           then Inl (builtin_error ''TypeError''
                  (''__class__ must be set to a class, not '' @ apos @ ''function'' @ apos @
                   '' object''))
           else if a = ''__dict__''
           then Inl (builtin_error ''AttributeError'' ''readonly attribute'')
           else Inr (md(a \<mapsto> SandboxFactory)))
      | _ \<Rightarrow> Inl (builtin_error ''TypeError''
                (''attribute name must be string, not '' @ apos @ type_name v @ apos)))"

text \<open>The body of the \<^verbatim>\<open>try\<close> (line 144).\<close>

definition patch_db :: "ctx \<Rightarrow> 'c pymodule \<Rightarrow> exn + 'c pymodule" where
  "patch_db c db_mod =
     (case py_get (meta c) ''db_connect_fn'' (PStr ''get_connection'') of
        Inl e \<Rightarrow> Inl e
      | Inr fn \<Rightarrow> py_setattr db_mod fn)"

text \<open>The handler with the \<^verbatim>\<open>score.add\<close> after it (lines 146-155), and the latter alone.\<close>

definition patch_failed :: "string \<Rightarrow> score \<Rightarrow> score" where
  "patch_failed msg s =
     add 10 False ''Database connection successfully sandboxed''
       ''Unable to sandbox database calls''
       (details_append (cross_mark @ '' Cannot patch DB connection: '' @ msg) s)"

definition patch_succeeded :: "score \<Rightarrow> score" where
  "patch_succeeded s =
     add 10 True ''Database connection successfully sandboxed''
       ''Unable to sandbox database calls'' s"

subsection \<open>Checks 1 to 5 with their gates (lines 76-158)\<close>

text \<open>
  The result is an escaping exception, or the score so far together with, when the run goes
  on to the last three checks, the CRUD object and the candidate's state (\<open>None\<close> when a
  gate returned early). An \<^verbatim>\<open>except Exception\<close> handler takes an exception only when it
  is an instance of \<^verbatim>\<open>Exception\<close>, and its \<^verbatim>\<open>str(e)\<close> is not guarded.
\<close>

definition critical_stages ::
  "'c world \<Rightarrow> ctx \<Rightarrow> exn + (score \<times> ('c crud_object \<times> 'c) option)" where
  "critical_stages W c =
     (let s1 = test_file_existence W c Score_init
      in if \<not> file_exists W (crud_path c) then Inr (s1, None)
         else
           (case import_class W c of
              Inl e \<Rightarrow>
                (if catchable e
                 then (case exn_str e of
                         Inl e' \<Rightarrow> Inl e'
                       | Inr msg \<Rightarrow> Inr (import_failed msg s1, None))
                 else Inl e)
            | Inr obj \<Rightarrow>
                (case test_method_existence obj required (initial obj) (import_succeeded s1) of
                   Inl e \<Rightarrow> Inl e
                 | Inr (s3, st1) \<Rightarrow>
                     (case all_methods obj required st1 of
                        (Inl e, st2) \<Rightarrow> Inl e
                      | (Inr False, st2) \<Rightarrow> Inr (s3, None)
                      | (Inr True, st2) \<Rightarrow>
                          (case dynamic_import W (db_path c) of
                             Inl e \<Rightarrow> Inl e
                           | Inr db_mod \<Rightarrow>
                               (case patch_db c db_mod of
                                  Inl e \<Rightarrow>
                                    (if catchable e
                                     then (case exn_str e of
                                             Inl e' \<Rightarrow> Inl e'
                                           | Inr msg \<Rightarrow> Inr (patch_failed msg s3, None))
                                     else Inl e)
                                | Inr md \<Rightarrow>
                                    Inr (patch_succeeded s3, Some (obj, st2))))))))"

subsection \<open>Test 5: CRUD functional test (lines 163-193)\<close>

text \<open>An f-string field: a string is inserted as it is, anything else through \<^verbatim>\<open>str\<close>.\<close>

definition format_value :: "'c world \<Rightarrow> pyval \<Rightarrow> string" where
  "format_value W v = (case v of PStr s \<Rightarrow> s | _ \<Rightarrow> str_builtin W v)"

definition schema_sql :: "'c world \<Rightarrow> pyval \<Rightarrow> string list \<Rightarrow> string" where
  "schema_sql W table_name ks =
     ''CREATE TABLE '' @ format_value W table_name @ '' (id INTEGER PRIMARY KEY, '' @
     str_join '', '' (map (\<lambda>k. k @ '' TEXT'') ks) @ '')''"

definition update_payload :: pyval where
  "update_payload = PDict [(''name'', PStr ''Updated'')]"

text \<open>
  \<^verbatim>\<open>all([a, b, c])\<close>: the truth values are taken in order, up to the first that is false
  or raises.
\<close>

fun py_all :: "(exn + bool) list \<Rightarrow> exn + bool" where
  "py_all [] = Inr True"
| "py_all (Inl e # xs) = Inl e"
| "py_all (Inr False # xs) = Inr False"
| "py_all (Inr True # xs) = py_all xs"

text \<open>
  The four calls and the verdict (lines 177-182), started on the pair of the dict's content
  and the candidate's state. \<^verbatim>\<open>sample_data["id"]\<close> is read anew before each of the last
  three calls, from whatever the dict holds by then. The result is the exception that ended
  the sequence, or the value of \<^verbatim>\<open>passed\<close>.
\<close>

definition crud_calls ::
  "'c crud_object \<Rightarrow> pyval \<times> 'c \<Rightarrow> (exn + bool) \<times> (pyval \<times> 'c)" where
  "crud_calls obj h =
     (case create_m obj (fst h) h of
        (Raises e, h1) \<Rightarrow> (Inl e, h1)
      | (Returns created, h1) \<Rightarrow>
     (case py_getitem (fst h1) ''id'' of
        Inl e \<Rightarrow> (Inl e, h1)
      | Inr i1 \<Rightarrow>
     (case read_m obj i1 h1 of
        (Raises e, h2) \<Rightarrow> (Inl e, h2)
      | (Returns read_item, h2) \<Rightarrow>
     (case py_getitem (fst h2) ''id'' of
        Inl e \<Rightarrow> (Inl e, h2)
      | Inr i2 \<Rightarrow>
     (case update_m obj i2 update_payload h2 of
        (Raises e, h3) \<Rightarrow> (Inl e, h3)
      | (Returns updated, h3) \<Rightarrow>
     (case py_getitem (fst h3) ''id'' of
        Inl e \<Rightarrow> (Inl e, h3)
      | Inr i3 \<Rightarrow>
     (case delete_m obj i3 h3 of
        (Raises e, h4) \<Rightarrow> (Inl e, h4)
      | (Returns deleted, h4) \<Rightarrow> (py_all [read_item, updated, deleted], h4))))))))"

text \<open>
  The body of the \<^verbatim>\<open>try\<close> (lines 164-182). The result is the exception that ended it or
  the value of \<^verbatim>\<open>passed\<close>, then the binding of the local \<^verbatim>\<open>table_name\<close> (\<open>None\<close> while
  unassigned), then the dict's content and the candidate's state. The table is created on
  the evaluator's own connection; the candidate is handed the factory, never that
  connection.
\<close>

definition functional_test ::
  "'c world \<Rightarrow> ctx \<Rightarrow> 'c crud_object \<Rightarrow> 'c \<Rightarrow>
     (exn + bool) \<times> pyval option \<times> (pyval \<times> 'c)" where
  "functional_test W c obj st =
     (case py_get (meta c) ''tables'' PNone of
        Inl e \<Rightarrow> (Inl e, None, (sample_data c, st))
      | Inr tables \<Rightarrow>
     (case py_values tables of
        Inl e \<Rightarrow> (Inl e, None, (sample_data c, st))
      | Inr [] \<Rightarrow>
          (Inl (builtin_error ''IndexError'' ''list index out of range''), None,
           (sample_data c, st))
      | Inr (table_name # rest) \<Rightarrow>
     (case py_keys (sample_data c) of
        Inl e \<Rightarrow> (Inl e, Some table_name, (sample_data c, st))
      | Inr ks \<Rightarrow>
     (case sqlite_execute W (schema_sql W table_name ks) fake_connection of
        Inl e \<Rightarrow> (Inl e, Some table_name, (sample_data c, st))
      | Inr cat \<Rightarrow>
     (case set_override obj st of
        Inl e \<Rightarrow> (Inl e, Some table_name, (sample_data c, st))
      | Inr st0 \<Rightarrow>
     (case crud_calls obj (sample_data c, st0) of
        (r, h) \<Rightarrow> (r, Some table_name, h)))))))"

text \<open>
  The handler of line 184 with the \<^verbatim>\<open>score.add\<close> after it, with \<open>tb\<close> the text of
  \<^verbatim>\<open>traceback.format_exc()\<close>; and the \<^verbatim>\<open>score.add\<close> alone when the body came through.
\<close>

definition functional_failed :: "string \<Rightarrow> score \<Rightarrow> score" where
  "functional_failed tb s =
     add 30 False ''CRUD operations successfully executed'' ''CRUD functional test failed''
       (details_append (cross_mark @ '' CRUD runtime error: '' @ tb) s)"

definition functional_scored :: "bool \<Rightarrow> score \<Rightarrow> score" where
  "functional_scored passed s =
     add 30 passed ''CRUD operations successfully executed'' ''CRUD functional test failed'' s"

text \<open>Lines 184-193: an exception that is no instance of \<^verbatim>\<open>Exception\<close> passes the handler.\<close>

definition test_crud_functional :: "'c world \<Rightarrow> (exn + bool) \<Rightarrow> score \<Rightarrow> exn + score" where
  "test_crud_functional W r s =
     (case r of
        Inl e \<Rightarrow> (if catchable e then Inr (functional_failed (format_exc W e) s) else Inl e)
      | Inr passed \<Rightarrow> Inr (functional_scored passed s))"

subsection \<open>Test 6: SQL injection safety (lines 198-220)\<close>

definition injection_record :: pyval where
  "injection_record =
     PDict [(''id'', PInt 999), (''name'', PStr ''Robert'); DROP TABLE users; --'')]"

definition probe_sql :: "'c world \<Rightarrow> pyval \<Rightarrow> string" where
  "probe_sql W table_name =
     ''CREATE TABLE '' @ format_value W table_name @ '' (id INTEGER PRIMARY KEY, name TEXT)''"

text \<open>
  The catalog query (lines 206-210) binds \<^verbatim>\<open>table_name\<close> as a parameter: a string finds
  the table of exactly that name. A value that is not a string either cannot be bound (the
  query raises an sqlite3 error) or matches no row; both leave \<^verbatim>\<open>still_exists\<close> false.
\<close>

definition table_listed :: "pyval \<Rightarrow> catalog \<Rightarrow> bool" where
  "table_listed table_name cat = (case table_name of PStr t \<Rightarrow> t \<in> set cat | _ \<Rightarrow> False)"

text \<open>
  Lines 198-213; the result is \<^verbatim>\<open>still_exists\<close>, or the exception that passed the
  handler of line 212 because it is no instance of \<^verbatim>\<open>Exception\<close>. An unassigned
  \<^verbatim>\<open>table_name\<close> raises UnboundLocalError inside the \<^verbatim>\<open>try\<close>. The catalog read after
  the candidate's \<^verbatim>\<open>create\<close> is the one of the connection opened on line 199, on which
  only the evaluator has executed anything.
\<close>

definition injection_test ::
  "'c world \<Rightarrow> pyval option \<Rightarrow> 'c crud_object \<Rightarrow> pyval \<times> 'c \<Rightarrow>
     (exn + bool) \<times> (pyval \<times> 'c)" where
  "injection_test W tn obj h =
     (case tn of
        None \<Rightarrow> (Inr False, h)
      | Some table_name \<Rightarrow>
          (case sqlite_execute W (probe_sql W table_name) fake_connection of
             Inl e \<Rightarrow> (if catchable e then Inr False else Inl e, h)
           | Inr cat \<Rightarrow>
               (case create_m obj injection_record h of
                  (Raises e, h1) \<Rightarrow> (if catchable e then Inr False else Inl e, h1)
                | (Returns created, h1) \<Rightarrow> (Inr (table_listed table_name cat), h1))))"

subsection \<open>Test 7: code quality (lines 225-236)\<close>

text \<open>The handler of line 228 takes FileNotFoundError and nothing else.\<close>

definition is_clean :: "'c world \<Rightarrow> ctx \<Rightarrow> exn + bool" where
  "is_clean W c =
     (case pycodestyle W (crud_path c) of
        NotInstalled \<Rightarrow> Inr True
      | LintRaises e \<Rightarrow> Inl e
      | ExitCode rc \<Rightarrow> Inr (rc = 0))"

subsection \<open>Checks 6 to 8 (lines 163-236)\<close>

definition trailing_checks ::
  "'c world \<Rightarrow> ctx \<Rightarrow> 'c crud_object \<Rightarrow> 'c \<Rightarrow> score \<Rightarrow> exn + score" where
  "trailing_checks W c obj st s =
     (case functional_test W c obj st of
        (r, tn, h) \<Rightarrow>
          (case test_crud_functional W r s of
             Inl e \<Rightarrow> Inl e
           | Inr s5 \<Rightarrow>
               (case injection_test W tn obj h of
                  (Inl e, h1) \<Rightarrow> Inl e
                | (Inr still_exists, h1) \<Rightarrow>
                    (case is_clean W c of
                       Inl e \<Rightarrow> Inl e
                     | Inr clean \<Rightarrow>
                         Inr (add 10 clean ''Code is PEP8 clean'' ''Code style violations found''
                                (add 20 still_exists ''SQL injection protection appears safe''
                                   ''SQL injection vulnerability detected'' s5))))))"

subsection \<open>The evaluator (lines 52-238)\<close>

definition evaluate_project :: "'c world \<Rightarrow> exn + report" where
  "evaluate_project W =
     (case prepare W of
        Inl e \<Rightarrow> Inl e
      | Inr (Inl rep) \<Rightarrow> Inr rep
      | Inr (Inr c) \<Rightarrow>
          (case critical_stages W c of
             Inl e \<Rightarrow> Inl e
           | Inr (s, None) \<Rightarrow> Inr (finalize s)
           | Inr (s, Some (obj, st)) \<Rightarrow>
               (case trailing_checks W c obj st s of
                  Inl e \<Rightarrow> Inl e
                | Inr s8 \<Rightarrow> Inr (finalize s8))))"

section \<open>Checks, weights and outcome entries\<close>

text \<open>
  The eight checks with the weight each carries, and the two messages with which every
  \<^verbatim>\<open>score.add\<close> call of \<^verbatim>\<open>evaluate_project\<close> reports its check.
\<close>

datatype check =
    CrudFile
  | AdapterFile
  | ImportClass
  | MethodPresent string
  | Sandbox
  | Functional
  | Injection
  | Style

fun weight :: "check \<Rightarrow> int" where
  "weight CrudFile = 10"
| "weight AdapterFile = 10"
| "weight ImportClass = 20"
| "weight (MethodPresent m) = 5"
| "weight Sandbox = 10"
| "weight Functional = 30"
| "weight Injection = 20"
| "weight Style = 10"

definition check_table :: "(check \<times> string \<times> string) list" where
  "check_table =
     [(CrudFile, ''CRUD module found'', ''CRUD module missing''),
      (AdapterFile, ''DB adapter file found'', ''DB adapter file missing''),
      (ImportClass, ''CRUD class imported successfully'', ''Failed to load CRUD class'')] @
     map (\<lambda>m. (MethodPresent m, ''Method '' @ m @ ''() found'', ''Method '' @ m @ ''() missing''))
       required @
     [(Sandbox, ''Database connection successfully sandboxed'',
         ''Unable to sandbox database calls''),
      (Functional, ''CRUD operations successfully executed'', ''CRUD functional test failed''),
      (Injection, ''SQL injection protection appears safe'',
         ''SQL injection vulnerability detected''),
      (Style, ''Code is PEP8 clean'', ''Code style violations found'')]"

definition all_checks :: "check list" where
  "all_checks = map fst check_table"

text \<open>The check a detail entry is the outcome of; \<open>None\<close> for any other text.\<close>

definition entry_check :: "string \<Rightarrow> check option" where
  "entry_check d =
     map_option fst
       (find (\<lambda>(k, ok, ko). d = check_mark @ '' '' @ ok \<or> d = cross_mark @ '' '' @ ko)
          check_table)"

text \<open>The checks that were attempted, read off the details.\<close>

definition attempted :: "string list \<Rightarrow> check list" where
  "attempted ds = List.map_filter entry_check ds"

definition consistent :: "score \<Rightarrow> bool" where
  "consistent s \<longleftrightarrow>
     0 \<le> earned s \<and> earned s \<le> total_pts s \<and>
     total_pts s = sum_list (map weight (attempted (details s)))"

definition extends :: "score \<Rightarrow> check list \<Rightarrow> score \<Rightarrow> bool" where
  "extends s ks s' \<longleftrightarrow>
     (consistent s \<longrightarrow> consistent s' \<and> attempted (details s') = attempted (details s) @ ks)"

definition reach :: "check list \<Rightarrow> score \<Rightarrow> bool" where
  "reach ks s \<longleftrightarrow> consistent s \<and> attempted (details s) = ks"

section \<open>Manifests that pass lines 56-71\<close>

text \<open>
  A manifest is valid when it is an object whose \<^verbatim>\<open>crud_module\<close> is a non-empty string,
  whose \<^verbatim>\<open>crud_class\<close> is present and truthy, whose \<^verbatim>\<open>db_adapter\<close> is a string, and
  whose \<^verbatim>\<open>sample_data\<close>, when present, is an object.
\<close>

definition is_str :: "pyval \<Rightarrow> bool" where
  "is_str v = (case v of PStr s \<Rightarrow> True | _ \<Rightarrow> False)"

definition is_dict :: "pyval \<Rightarrow> bool" where
  "is_dict v = (case v of PDict kvs \<Rightarrow> True | _ \<Rightarrow> False)"

definition field :: "pyval \<Rightarrow> string \<Rightarrow> pyval \<Rightarrow> pyval" where
  "field m k dflt = (case py_get m k dflt of Inl e \<Rightarrow> PNone | Inr v \<Rightarrow> v)"

definition valid_manifest :: "pyval \<Rightarrow> bool" where
  "valid_manifest m \<longleftrightarrow>
     is_dict m \<and>
     is_str (field m ''crud_module'' PNone) \<and> truthy (field m ''crud_module'' PNone) \<and>
     truthy (field m ''crud_class'' PNone) \<and>
     is_str (field m ''db_adapter'' PNone) \<and>
     is_dict (field m ''sample_data'' (PDict []))"

text \<open>The file a manifest names under a key, joined to the project directory.\<close>

definition named_path :: "'c world \<Rightarrow> pyval \<Rightarrow> string \<Rightarrow> string" where
  "named_path W m k =
     os_path_join (project_dir W) (case field m k PNone of PStr f \<Rightarrow> f | _ \<Rightarrow> [])"

section \<open>Concrete submissions\<close>

text \<open>
  The manifest of the reference scenario: \<^verbatim>\<open>crud.py\<close>/\<^verbatim>\<open>Crud\<close>, adapter \<^verbatim>\<open>db.py\<close>,
  sample \<^verbatim>\<open>{"id": 1, "name": "Alice"}\<close>, table \<^verbatim>\<open>{"user": "users"}\<close>.
\<close>

definition scenario_fields :: "(string \<times> pyval) list" where
  "scenario_fields =
     [(''crud_module'', PStr ''crud.py''),
      (''crud_class'', PStr ''Crud''),
      (''db_adapter'', PStr ''db.py''),
      (''tables'', PDict [(''user'', PStr ''users'')]),
      (''sample_data'',
         PDict [(''create'', PDict [(''id'', PInt 1), (''name'', PStr ''Alice'')])])]"

definition scenario_manifest :: pyval where
  "scenario_manifest = PDict scenario_fields"

text \<open>The same manifest without one field, and with one field replaced.\<close>

definition without_field :: "string \<Rightarrow> pyval" where
  "without_field k = PDict (filter (\<lambda>kv. fst kv \<noteq> k) scenario_fields)"

definition with_field :: "string \<Rightarrow> pyval \<Rightarrow> pyval" where
  "with_field k v = PDict (map (\<lambda>kv. if fst kv = k then (k, v) else kv) scenario_fields)"

text \<open>
  A table name that carries its own column list and comments out the one the evaluator
  appends.
\<close>

definition commented_name :: string where
  "commented_name = ''users (id INTEGER PRIMARY KEY, name TEXT) --''"

definition commented_manifest :: pyval where
  "commented_manifest = with_field ''tables'' (PDict [(''user'', PStr commented_name)])"

text \<open>
  The answers of SQLite to the statements that occur in the runs below, on a database with
  catalog \<open>cat\<close>. A column list that names \<^verbatim>\<open>id\<close> twice is rejected, unless a comment
  hides it; the script that the injection payload turns a concatenated INSERT into inserts
  and then drops the table.
\<close>

definition insert_sql :: "string \<Rightarrow> string" where
  "insert_sql nm = ''INSERT INTO users (name) VALUES ('' @ apos @ nm @ apos @ '')''"

definition sqlite_engine :: "string \<Rightarrow> catalog \<Rightarrow> exn + catalog" where
  "sqlite_engine stmt cat =
     (if stmt = ''CREATE TABLE users (id INTEGER PRIMARY KEY, id TEXT, name TEXT)''
      then Inl (builtin_error ''sqlite3.OperationalError'' ''duplicate column name: id'')
      else if stmt = ''CREATE TABLE users (id INTEGER PRIMARY KEY, name TEXT)'' \<or>
              stmt = ''CREATE TABLE '' @ commented_name @
                       '' (id INTEGER PRIMARY KEY, id TEXT, name TEXT)'' \<or>
              stmt = ''CREATE TABLE '' @ commented_name @ '' (id INTEGER PRIMARY KEY, name TEXT)''
      then (if ''users'' \<in> set cat
            then Inl (builtin_error ''sqlite3.OperationalError'' ''table users already exists'')
            else Inr (cat @ [''users'']))
      else if stmt = ''CREATE TABLE IF NOT EXISTS users (id INTEGER PRIMARY KEY, name TEXT)''
      then Inr (if ''users'' \<in> set cat then cat else cat @ [''users''])
      else if stmt = insert_sql ''Alice''
      then (if ''users'' \<in> set cat then Inr cat
            else Inl (builtin_error ''sqlite3.OperationalError'' ''no such table: users''))
      else if stmt = insert_sql ''Robert'); DROP TABLE users; --''
      then (if ''users'' \<in> set cat then Inr (removeAll ''users'' cat)
            else Inl (builtin_error ''sqlite3.OperationalError'' ''no such table: users''))
      else Inl (builtin_error ''sqlite3.OperationalError'' ''syntax error''))"

text \<open>
  A host with the project in \<^verbatim>\<open>/srv/project\<close>: the manifest, the files present, and what
  loading \<^verbatim>\<open>crud.py\<close> and \<^verbatim>\<open>db.py\<close> gives. The linter is installed and finds nothing.
  A traceback is cut down to its first and its last line. Every table name below is a
  string, so \<^verbatim>\<open>str\<close> of another value is never asked for; it is set to the type's name.
\<close>

definition short_traceback :: "exn \<Rightarrow> string" where
  "short_traceback e =
     ''Traceback (most recent call last): '' @ exn_type e @ '': '' @
     (case exn_str e of Inl e' \<Rightarrow> ''<exception str() failed>'' | Inr msg \<Rightarrow> msg)"

definition host ::
  "pyval \<Rightarrow> string list \<Rightarrow> (exn + 'c pymodule) \<Rightarrow> (exn + 'c pymodule) \<Rightarrow> 'c world" where
  "host manifest files crud_mod db_mod =
     \<lparr>project_dir = ''/srv/project'',
      file_exists = (\<lambda>p. p \<in> set files),
      read_json = (\<lambda>p. if p = ''/srv/project/README.json'' then Inr manifest
                         else Inl (builtin_error ''FileNotFoundError'' p)),
      exec_module = (\<lambda>p. if p = ''/srv/project/crud.py'' then crud_mod
                           else if p = ''/srv/project/db.py'' then db_mod
                           else Inl (builtin_error ''FileNotFoundError'' p)),
      sqlite_execute = sqlite_engine,
      str_builtin = type_name,
      format_exc = short_traceback,
      pycodestyle = (\<lambda>p. ExitCode 0)\<rparr>"

text \<open>The same host when the linter is installed but may not be executed.\<close>

definition lint_denied :: "'c world \<Rightarrow> 'c world" where
  "lint_denied W =
     W\<lparr>pycodestyle :=
          (\<lambda>p. LintRaises (builtin_error ''PermissionError''
                  (''[Errno 13] Permission denied: '' @ apos @ ''pycodestyle'' @ apos)))\<rparr>"

definition all_files :: "string list" where
  "all_files = [''/srv/project/README.json'', ''/srv/project/crud.py'', ''/srv/project/db.py'']"

text \<open>An object with exactly the attributes \<open>names\<close>, looked up without side effect.\<close>

definition plain_lookup :: "string list \<Rightarrow> string \<Rightarrow> 'c \<Rightarrow> attr_lookup \<times> 'c" where
  "plain_lookup names m st = (if m \<in> set names then Present else Absent, st)"

text \<open>
  A correct candidate that never builds SQL from its arguments and leaves the sample dict
  alone: its state is the list of stored identifiers.
\<close>

definition good_crud :: "pyval list crud_object" where
  "good_crud =
     \<lparr>find_attr = plain_lookup [''create'', ''read'', ''update'', ''delete''],
      set_override = Inr,
      create_m = (\<lambda>r h. case py_getitem r ''id'' of
                            Inl e \<Rightarrow> (Raises e, h)
                          | Inr i \<Rightarrow> (Returns (Inr True), (fst h, i # snd h))),
      read_m = (\<lambda>i h. (Returns (Inr (i \<in> set (snd h))), h)),
      update_m = (\<lambda>i u h. (Returns (Inr (i \<in> set (snd h))), h)),
      delete_m = (\<lambda>i h. (Returns (Inr (i \<in> set (snd h))), (fst h, removeAll i (snd h)))),
      initial = []\<rparr>"

text \<open>The same class without \<^verbatim>\<open>delete\<close>.\<close>

definition no_delete_crud :: "pyval list crud_object" where
  "no_delete_crud = good_crud\<lparr>find_attr := plain_lookup [''create'', ''read'', ''update'']\<rparr>"

text \<open>
  A class whose \<^verbatim>\<open>__getattr__\<close> supplies \<^verbatim>\<open>delete\<close> from the second request on: the
  state counts the requests for \<^verbatim>\<open>delete\<close>. Its methods do nothing and return \<^verbatim>\<open>True\<close>.
\<close>

definition late_delete_crud :: "nat crud_object" where
  "late_delete_crud =
     \<lparr>find_attr = (\<lambda>m n. if m = ''delete''
                           then (if n = 0 then Absent else Present, Suc n)
                           else plain_lookup [''create'', ''read'', ''update''] m n),
      set_override = Inr,
      create_m = (\<lambda>r h. (Returns (Inr True), h)),
      read_m = (\<lambda>i h. (Returns (Inr True), h)),
      update_m = (\<lambda>i u h. (Returns (Inr True), h)),
      delete_m = (\<lambda>i h. (Returns (Inr True), h)),
      initial = 0\<rparr>"

text \<open>A class whose \<^verbatim>\<open>delete\<close> is a property that raises ValueError.\<close>

definition raising_delete_crud :: "pyval list crud_object" where
  "raising_delete_crud =
     good_crud\<lparr>find_attr :=
       (\<lambda>m st. if m = ''delete''
                then (LookupRaises (builtin_error ''ValueError'' ''delete is not available''), st)
                else plain_lookup [''create'', ''read'', ''update''] m st)\<rparr>"

text \<open>A class whose \<^verbatim>\<open>read\<close> calls \<^verbatim>\<open>sys.exit(1)\<close>, and one whose \<^verbatim>\<open>create\<close> raises ValueError.\<close>

definition exiting_crud :: "pyval list crud_object" where
  "exiting_crud =
     good_crud\<lparr>read_m := (\<lambda>i h. (Raises (Exn False ''SystemExit'' (Inr ''1'')), h))\<rparr>"

definition failing_create_crud :: "pyval list crud_object" where
  "failing_create_crud =
     good_crud\<lparr>create_m := (\<lambda>r h. (Raises (builtin_error ''ValueError'' ''bad record''), h))\<rparr>"

text \<open>
  A candidate whose \<^verbatim>\<open>create\<close> opens a private in-memory database (what the sandbox
  factory returns on every call), makes sure its table is there and runs, as a script, the
  INSERT it concatenated from the name. Its state is the catalog of the database it last
  wrote to.
\<close>

definition naive_create :: "pyval \<Rightarrow> catalog \<Rightarrow> outcome \<times> catalog" where
  "naive_create r st =
     (case py_getitem r ''name'' of
        Inl e \<Rightarrow> (Raises e, st)
      | Inr v \<Rightarrow>
          (case v of
             PStr nm \<Rightarrow>
               (case sqlite_engine
                       ''CREATE TABLE IF NOT EXISTS users (id INTEGER PRIMARY KEY, name TEXT)''
                       fake_connection of
                  Inl e \<Rightarrow> (Raises e, st)
                | Inr cat \<Rightarrow>
                    (case sqlite_engine (insert_sql nm) cat of
                       Inl e \<Rightarrow> (Raises e, cat)
                     | Inr cat' \<Rightarrow> (Returns (Inr True), cat')))
           | _ \<Rightarrow> (Raises (builtin_error ''TypeError'' ''can only concatenate str''), st)))"

definition naive_crud :: "catalog crud_object" where
  "naive_crud =
     \<lparr>find_attr = plain_lookup [''create'', ''read'', ''update'', ''delete''],
      set_override = Inr,
      create_m = (\<lambda>r h. case naive_create r (snd h) of (out, cat) \<Rightarrow> (out, (fst h, cat))),
      read_m = (\<lambda>i h. (Returns (Inr True), h)),
      update_m = (\<lambda>i u h. (Returns (Inr True), h)),
      delete_m = (\<lambda>i h. (Returns (Inr True), h)),
      initial = []\<rparr>"

definition crud_module_of :: "'c crud_object \<Rightarrow> exn + 'c pymodule" where
  "crud_module_of obj = Inr [''Crud'' \<mapsto> Callable (Inr obj)]"

text \<open>An adapter whose own \<^verbatim>\<open>get_connection\<close> cannot open its database on this host.\<close>

definition db_module :: "exn + 'c pymodule" where
  "db_module =
     Inr [''get_connection'' \<mapsto>
            Callable (Inl (builtin_error ''sqlite3.OperationalError''
                       ''unable to open database file''))]"

text \<open>An adapter module that defines \<^verbatim>\<open>connect\<close> and no \<^verbatim>\<open>get_connection\<close>.\<close>

definition other_db_module :: "exn + 'c pymodule" where
  "other_db_module =
     Inr [''connect'' \<mapsto>
            Callable (Inl (builtin_error ''sqlite3.OperationalError''
                       ''unable to open database file''))]"

text \<open>The reference scenario with the correct candidate.\<close>

definition scenario_world :: "pyval list world" where
  "scenario_world = host scenario_manifest all_files (crud_module_of good_crud) db_module"

text \<open>The adapter file is not in the project; the manifest does not name an adapter.\<close>

definition missing_adapter_world :: "pyval list world" where
  "missing_adapter_world =
     host scenario_manifest [''/srv/project/README.json'', ''/srv/project/crud.py'']
       (crud_module_of good_crud)
       (Inl (builtin_error ''FileNotFoundError'' ''/srv/project/db.py''))"

definition no_adapter_field_world :: "pyval list world" where
  "no_adapter_field_world =
     host (without_field ''db_adapter'') all_files (crud_module_of good_crud) db_module"

text \<open>The CRUD file is not in the project, the adapter is; and neither is.\<close>

definition missing_crud_world :: "pyval list world" where
  "missing_crud_world =
     host scenario_manifest [''/srv/project/README.json'', ''/srv/project/db.py'']
       (Inl (builtin_error ''FileNotFoundError'' ''/srv/project/crud.py'')) db_module"

definition empty_project_world :: "pyval list world" where
  "empty_project_world =
     host scenario_manifest [''/srv/project/README.json'']
       (Inl (builtin_error ''FileNotFoundError'' ''/srv/project/crud.py''))
       (Inl (builtin_error ''FileNotFoundError'' ''/srv/project/db.py''))"

text \<open>The three classes with a doubtful \<^verbatim>\<open>delete\<close>.\<close>

definition no_delete_world :: "pyval list world" where
  "no_delete_world = host scenario_manifest all_files (crud_module_of no_delete_crud) db_module"

definition late_delete_world :: "nat world" where
  "late_delete_world =
     host scenario_manifest all_files (crud_module_of late_delete_crud) db_module"

definition raising_delete_world :: "pyval list world" where
  "raising_delete_world =
     host scenario_manifest all_files (crud_module_of raising_delete_crud) db_module"



text \<open>The adapter has no \<^verbatim>\<open>get_connection\<close>.\<close>

definition no_factory_world :: "pyval list world" where
  "no_factory_world =
     host scenario_manifest all_files (crud_module_of good_crud) other_db_module"

text \<open>The manifest has no \<^verbatim>\<open>tables\<close>; the same where the linter may not be executed.\<close>

definition no_tables_world :: "pyval list world" where
  "no_tables_world =
     host (without_field ''tables'') all_files (crud_module_of good_crud) db_module"

definition no_tables_lint_denied_world :: "pyval list world" where
  "no_tables_lint_denied_world = lint_denied no_tables_world"

text \<open>
  The manifest's table name is \<open>commented_name\<close>, so that the schema statement goes
  through: with the correct candidate, with the one that exits in \<^verbatim>\<open>read\<close>, with the one
  whose \<^verbatim>\<open>create\<close> raises, and with the latter where the linter may not be executed.
\<close>

definition commented_world :: "pyval list world" where
  "commented_world = host commented_manifest all_files (crud_module_of good_crud) db_module"

definition exiting_world :: "pyval list world" where
  "exiting_world = host commented_manifest all_files (crud_module_of exiting_crud) db_module"

definition failing_create_world :: "pyval list world" where
  "failing_create_world =
     host commented_manifest all_files (crud_module_of failing_create_crud) db_module"

definition failing_create_lint_denied_world :: "pyval list world" where
  "failing_create_lint_denied_world = lint_denied failing_create_world"

text \<open>The candidate is \<open>naive_crud\<close>.\<close>

definition naive_world :: "catalog world" where
  "naive_world = host scenario_manifest all_files (crud_module_of naive_crud) db_module"

text \<open>What \<open>prepare\<close> extracts from the manifests above.\<close>

definition scenario_ctx :: ctx where
  "scenario_ctx =
     \<lparr>meta = scenario_manifest, crud_class_name = PStr ''Crud'',
      sample_data = PDict [(''id'', PInt 1), (''name'', PStr ''Alice'')],
      crud_path = ''/srv/project/crud.py'', db_path = ''/srv/project/db.py''\<rparr>"

definition commented_ctx :: ctx where
  "commented_ctx = scenario_ctx\<lparr>meta := commented_manifest\<rparr>"

definition no_tables_ctx :: ctx where
  "no_tables_ctx = scenario_ctx\<lparr>meta := without_field ''tables''\<rparr>"

text \<open>The score after checks 1 to 5 have all passed.\<close>

definition sandboxed_score :: score where
  "sandboxed_score =
     \<lparr>total_pts = 70, earned = 70,
      details =
        [check_mark @ '' CRUD module found'',
         check_mark @ '' DB adapter file found'',
         check_mark @ '' CRUD class imported successfully'',
         check_mark @ '' Method create() found'',
         check_mark @ '' Method read() found'',
         check_mark @ '' Method update() found'',
         check_mark @ '' Method delete() found'',
         check_mark @ '' Database connection successfully sandboxed'']\<rparr>"

section \<open>How a run ends after the functional check\<close>

text \<open>
  The end of a run in which the functional check left the detail entries \<open>fs\<close> behind the
  entries of the score \<open>s\<close> and earned \<open>pts\<close> points, with \<open>tn\<close> the binding of
  \<^verbatim>\<open>table_name\<close> and \<open>h\<close> the dict's content and the candidate's state at that point. The
  injection probe runs; if it lets an exception pass, that exception leaves
  \<open>evaluate_project\<close>. Otherwise the linter is started; if that raises anything but
  FileNotFoundError, that exception leaves \<open>evaluate_project\<close>. Otherwise the report is
  complete: 130 points possible, and the injection entry and the style entry follow \<open>fs\<close>.
\<close>

definition run_continues ::
  "'c world \<Rightarrow> ctx \<Rightarrow> 'c crud_object \<Rightarrow> pyval option \<Rightarrow> pyval \<times> 'c \<Rightarrow> score \<Rightarrow>
     string list \<Rightarrow> int \<Rightarrow> bool" where
  "run_continues W c obj tn h s fs pts =
     (case injection_test W tn obj h of
        (Inl e, h1) \<Rightarrow> evaluate_project W = Inl e
      | (Inr still_exists, h1) \<Rightarrow>
          (case is_clean W c of
             Inl e \<Rightarrow> evaluate_project W = Inl e
           | Inr clean \<Rightarrow>
               evaluate_project W =
                 Inr (ScoreReport
                   (earned s + pts + (if still_exists then 20 else 0) +
                    (if clean then 10 else 0))
                   130
                   (details s @ fs @
                    [if still_exists then check_mark @ '' SQL injection protection appears safe''
                     else cross_mark @ '' SQL injection vulnerability detected'',
                     if clean then check_mark @ '' Code is PEP8 clean''
                     else cross_mark @ '' Code style violations found'']))))"

section \<open>Unfolding rules\<close>

lemmas py_defs = py_get_def py_values_def py_keys_def py_getitem_def path_join_def
  os_path_join_def no_attribute_def apos_def builtin_error_def

lemmas world_defs = host_def lint_denied_def all_files_def scenario_manifest_def
  scenario_fields_def without_field_def with_field_def commented_name_def commented_manifest_def
  crud_module_of_def db_module_def other_db_module_def plain_lookup_def good_crud_def
  no_delete_crud_def late_delete_crud_def raising_delete_crud_def exiting_crud_def
  failing_create_crud_def naive_crud_def naive_create_def sqlite_engine_def insert_sql_def
  short_traceback_def scenario_ctx_def commented_ctx_def no_tables_ctx_def sandboxed_score_def

lemmas stage_defs = prepare_def load_metadata_def critical_stages_def test_file_existence_def
  import_class_def dynamic_import_def py_getattr_def call_member_def import_failed_def
  import_succeeded_def required_def hasattr_def patch_db_def py_setattr_def patch_failed_def
  patch_succeeded_def functional_test_def crud_calls_def schema_sql_def format_value_def
  update_payload_def functional_failed_def functional_scored_def test_crud_functional_def
  injection_test_def injection_record_def probe_sql_def table_listed_def is_clean_def
  trailing_checks_def evaluate_project_def finalize_def add_def details_append_def
  Score_init_def fake_connection_def

lemmas table_simps = check_table_def required_def

section \<open>Outcome entries and the score\<close>

lemma attempted_append: "attempted (xs @ ys) = attempted xs @ attempted ys"
  by (induction xs) (simp_all add: attempted_def List.map_filter_simps split: option.splits)

lemma attempted_single:
  "attempted [d] = (case entry_check d of None \<Rightarrow> [] | Some k \<Rightarrow> [k])"
  by (simp add: attempted_def List.map_filter_simps split: option.split)

lemma attempted_member:
  "d \<in> set ds \<Longrightarrow> entry_check d = Some k \<Longrightarrow> k \<in> set (attempted ds)"
  by (induction ds) (auto simp: attempted_def List.map_filter_simps split: option.splits)

lemma entry_diag1:
  "entry_check (cross_mark @ '' Could not import CRUD class: '' @ x) = None"
  by (simp add: check_table_def required_def entry_check_def check_mark_def cross_mark_def)

lemma entry_diag2:
  "entry_check (cross_mark @ '' Cannot patch DB connection: '' @ x) = None"
  by (simp add: check_table_def required_def entry_check_def check_mark_def cross_mark_def)


lemma entry_add:
  "(k, ok, ko) \<in> set check_table \<Longrightarrow>
     entry_check (check_mark @ '' '' @ ok) = Some k \<and>
     entry_check (cross_mark @ '' '' @ ko) = Some k"
  unfolding check_table_def required_def
  apply (simp only: set_simps list.map append.simps insert_iff empty_iff)
  apply (elim disjE; simp add: check_table_def required_def entry_check_def check_mark_def
      cross_mark_def)
  done


lemma entry_sandbox:
  "entry_check (check_mark @ '' Database connection successfully sandboxed'') = Some Sandbox"
  using entry_add [of Sandbox "''Database connection successfully sandboxed''"
      "''Unable to sandbox database calls''"]
  by (simp add: table_simps)

lemma entry_injection:
  "entry_check (if b then check_mark @ '' SQL injection protection appears safe''
                else cross_mark @ '' SQL injection vulnerability detected'') = Some Injection"
  using entry_add [of Injection "''SQL injection protection appears safe''"
      "''SQL injection vulnerability detected''"]
  by (simp add: table_simps)

lemma entry_style:
  "entry_check (if b then check_mark @ '' Code is PEP8 clean''
                else cross_mark @ '' Code style violations found'') = Some Style"
  using entry_add [of Style "''Code is PEP8 clean''" "''Code style violations found''"]
  by (simp add: table_simps)

lemma all_checks_eq:
  "all_checks = [CrudFile, AdapterFile, ImportClass, MethodPresent ''create'',
     MethodPresent ''read'', MethodPresent ''update'', MethodPresent ''delete'',
     Sandbox, Functional, Injection, Style]"
  by (simp add: all_checks_def table_simps)


lemma extends_refl: "extends s [] s"
  by (simp add: extends_def)

lemma extends_trans:
  "extends s ks s' \<Longrightarrow> extends s' ks' s'' \<Longrightarrow> extends s (ks @ ks') s''"
  by (simp add: extends_def)

lemma extends_add:
  assumes "(k, ok, ko) \<in> set check_table" and "weight k = p"
  shows "extends s [k] (add p c ok ko s)"
proof -
  from assms(1) have e: "entry_check (check_mark @ '' '' @ ok) = Some k"
    "entry_check (cross_mark @ '' '' @ ko) = Some k"
    using entry_add by blast+
  have "0 \<le> p" using assms(2) by (cases k) auto
  then show ?thesis
    using e assms(2)
    by (auto simp: extends_def consistent_def add_def attempted_append attempted_single)
qed

lemma extends_append:
  "entry_check msg = None \<Longrightarrow> extends s [] (details_append msg s)"
  by (simp add: extends_def consistent_def details_append_def attempted_append attempted_single)

lemma extends_file_existence:
  "extends s [CrudFile, AdapterFile] (test_file_existence W c s)"
  unfolding test_file_existence_def
  using extends_trans [OF extends_add extends_add, of CrudFile _ _ 10 AdapterFile _ _ 10]
  by (simp add: table_simps)

lemma extends_import_failed: "extends s [ImportClass] (import_failed msg s)"
proof -
  have "extends s ([] @ [ImportClass]) (import_failed msg s)"
    unfolding import_failed_def
    by (rule extends_trans [OF extends_append [OF entry_diag1] extends_add])
       (simp_all add: table_simps)
  then show ?thesis by simp
qed

lemma extends_import_succeeded: "extends s [ImportClass] (import_succeeded s)"
  unfolding import_succeeded_def by (rule extends_add) (simp_all add: table_simps)

lemma extends_method_existence:
  "test_method_existence obj ms st s = Inr (s', st') \<Longrightarrow> set ms \<subseteq> set required \<Longrightarrow>
     extends s (map MethodPresent ms) s'"
proof (induction ms arbitrary: st s)
  case Nil
  then show ?case by (simp add: extends_refl)
next
  case (Cons m ms)
  from Cons.prems(1) obtain b st1 where
    h: "hasattr obj m st = (Inr b, st1)" and
    r: "test_method_existence obj ms st1
          (add 5 b (''Method '' @ m @ ''() found'') (''Method '' @ m @ ''() missing'') s) =
        Inr (s', st')"
    by (auto split: prod.splits sum.splits)
  have 1: "extends s [MethodPresent m]
             (add 5 b (''Method '' @ m @ ''() found'') (''Method '' @ m @ ''() missing'') s)"
    by (rule extends_add) (use Cons.prems(2) in \<open>auto simp: table_simps\<close>)
  from Cons.IH [OF r] Cons.prems(2)
  have 2: "extends (add 5 b (''Method '' @ m @ ''() found'') (''Method '' @ m @ ''() missing'') s)
             (map MethodPresent ms) s'"
    by simp
  from extends_trans [OF 1 2] show ?case by simp
qed

lemma extends_patch_failed: "extends s [Sandbox] (patch_failed msg s)"
proof -
  have "extends s ([] @ [Sandbox]) (patch_failed msg s)"
    unfolding patch_failed_def
    by (rule extends_trans [OF extends_append [OF entry_diag2] extends_add])
       (simp_all add: table_simps)
  then show ?thesis by simp
qed

lemma extends_patch_succeeded: "extends s [Sandbox] (patch_succeeded s)"
  unfolding patch_succeeded_def by (rule extends_add) (simp_all add: table_simps)





lemma reach_init: "reach [] Score_init"
  by (simp add: reach_def consistent_def Score_init_def attempted_def List.map_filter_simps)

lemma reach_step: "reach ks s \<Longrightarrow> extends s ks' s' \<Longrightarrow> reach (ks @ ks') s'"
  by (simp add: reach_def extends_def)

lemma reach_sum:
  "reach ks s \<Longrightarrow>
     0 \<le> earned s \<and> earned s \<le> total_pts s \<and> total_pts s = sum_list (map weight ks)"
  by (auto simp: reach_def consistent_def)

lemma reach_files: "reach (take 2 all_checks) (test_file_existence W c Score_init)"
  using reach_step [OF reach_init extends_file_existence [where W = W and c = c]]
  by (simp add: all_checks_eq)

lemma reach_import_failed:
  "reach (take 3 all_checks) (import_failed msg (test_file_existence W c Score_init))"
  using reach_step [OF reach_files extends_import_failed]
  by (simp add: all_checks_eq)

lemma reach_import_succeeded:
  "reach (take 3 all_checks) (import_succeeded (test_file_existence W c Score_init))"
  using reach_step [OF reach_files extends_import_succeeded]
  by (simp add: all_checks_eq)

lemma reach_methods:
  assumes "test_method_existence obj required st
             (import_succeeded (test_file_existence W c Score_init)) = Inr (s3, st1)"
  shows "reach (take 7 all_checks) s3"
  using reach_step [OF reach_import_succeeded extends_method_existence [OF assms]]
  by (simp add: all_checks_eq required_def)

lemma reach_patch:
  assumes "test_method_existence obj required st
             (import_succeeded (test_file_existence W c Score_init)) = Inr (s3, st1)"
  shows "reach (take 8 all_checks) (patch_failed msg s3)"
    and "reach (take 8 all_checks) (patch_succeeded s3)"
  using reach_step [OF reach_methods [OF assms] extends_patch_failed]
    reach_step [OF reach_methods [OF assms] extends_patch_succeeded]
  by (simp_all add: all_checks_eq)

lemma critical_cases:
  fixes W :: "'c world" and r :: "('c crud_object \<times> 'c) option"
  assumes "critical_stages W c = Inr (s, r)"
  obtains
    (files) "r = None" and "s = test_file_existence W c Score_init"
  | (import) msg where "r = None"
      and "s = import_failed msg (test_file_existence W c Score_init)"
  | (methods) obj :: "'c crud_object" and st st1 where "r = None"
      and "test_method_existence obj required st
             (import_succeeded (test_file_existence W c Score_init)) = Inr (s, st1)"
  | (patch) obj :: "'c crud_object" and st s3 st1 msg where "r = None"
      and "test_method_existence obj required st
             (import_succeeded (test_file_existence W c Score_init)) = Inr (s3, st1)"
      and "s = patch_failed msg s3"
  | (sandboxed) obj st s3 st1 st2 where "r = Some (obj, st2)"
      and "test_method_existence obj required st
             (import_succeeded (test_file_existence W c Score_init)) = Inr (s3, st1)"
      and "s = patch_succeeded s3"
  using assms
  apply (simp add: critical_stages_def Let_def
      split: if_splits sum.splits prod.splits bool.splits)
       apply blast+
  done

lemma critical_reach:
  assumes "critical_stages W c = Inr (s, r)"
  shows "(r = None \<and> (reach (take 2 all_checks) s \<or> reach (take 3 all_checks) s \<or>
            reach (take 7 all_checks) s \<or> reach (take 8 all_checks) s)) \<or>
         (r \<noteq> None \<and> reach (take 8 all_checks) s)"
  using assms
proof (cases rule: critical_cases)
  case files
  then show ?thesis by (simp add: reach_files)
next
  case (import msg)
  then show ?thesis by (simp add: reach_import_failed)
next
  case (methods obj st st1)
  then show ?thesis using reach_methods [OF methods(2)] by simp
next
  case (patch obj st s3 st1 msg)
  then show ?thesis using reach_patch(1) [OF patch(2)] by simp
next
  case (sandboxed obj st s3 st1 st2)
  then show ?thesis using reach_patch(2) [OF sandboxed(2)] by simp
qed

lemma critical_total:
  assumes "critical_stages W c = Inr (s, Some x)"
  shows "total_pts s = 70 \<and> 0 \<le> earned s \<and> earned s \<le> 70"
proof -
  from critical_reach [OF assms] have "reach (take 8 all_checks) s" by auto
  from reach_sum [OF this] show ?thesis by (simp add: all_checks_eq)
qed


lemma scenario_prepare: "prepare scenario_world = Inr (Inr scenario_ctx)"
  by (simp add: scenario_world_def prepare_def load_metadata_def py_defs world_defs)

lemma scenario_run:
  "evaluate_project scenario_world =
     Inr (ScoreReport 100 130
       [check_mark @ '' CRUD module found'',
        check_mark @ '' DB adapter file found'',
        check_mark @ '' CRUD class imported successfully'',
        check_mark @ '' Method create() found'',
        check_mark @ '' Method read() found'',
        check_mark @ '' Method update() found'',
        check_mark @ '' Method delete() found'',
        check_mark @ '' Database connection successfully sandboxed'',
        cross_mark @ '' CRUD runtime error: Traceback (most recent call last): '' @
          ''sqlite3.OperationalError: duplicate column name: id'',
        cross_mark @ '' CRUD functional test failed'',
        check_mark @ '' SQL injection protection appears safe'',
        check_mark @ '' Code is PEP8 clean''])"
  by (simp add: scenario_world_def stage_defs py_defs world_defs)

lemma valid_manifest_prepare:
  assumes "load_metadata W = Inr m" and "valid_manifest m"
  shows "\<exists>c. prepare W = Inr (Inr c) \<and> crud_path c = named_path W m ''crud_module'' \<and>
           db_path c = named_path W m ''db_adapter''"
proof -
  from assms(2) obtain kvs where m: "m = PDict kvs"
    by (cases m) (simp_all add: valid_manifest_def is_dict_def)
  have g: "py_get m k d = Inr (field m k d)" for k d
    by (simp add: m py_get_def field_def)
  from assms(2) obtain f where f: "field m ''crud_module'' PNone = PStr f" "f \<noteq> []"
    by (cases "field m ''crud_module'' PNone") (simp_all add: valid_manifest_def is_str_def)
  from assms(2) obtain a where a: "field m ''db_adapter'' PNone = PStr a"
    by (cases "field m ''db_adapter'' PNone") (simp_all add: valid_manifest_def is_str_def)
  from assms(2) obtain sd where sd: "field m ''sample_data'' (PDict []) = PDict sd"
    by (cases "field m ''sample_data'' (PDict [])") (simp_all add: valid_manifest_def is_dict_def)
  from assms(2) have t: "truthy (field m ''crud_class'' PNone)"
    by (simp add: valid_manifest_def)
  have s: "py_get (PDict sd) ''create'' (PDict []) = Inr (field (PDict sd) ''create'' (PDict []))"
    by (simp add: py_get_def field_def)
  show ?thesis
    using assms(1) f a sd t
    by (simp add: prepare_def g s path_join_def named_path_def)
qed

section \<open>The claims\<close>



text \<open>
  C1, at two projects whose manifest parses and names a CRUD module and class. In the first
  the adapter file named by \<^verbatim>\<open>db_adapter\<close> is not there: the import on line 136 stands
  outside every \<^verbatim>\<open>try\<close>, so its FileNotFoundError leaves \<open>evaluate_project\<close>. In the
  second the manifest has no \<^verbatim>\<open>db_adapter\<close>: \<^verbatim>\<open>os.path.join\<close> on line 71 raises
  TypeError on \<^verbatim>\<open>None\<close>. Neither run ends with a report.
\<close>

theorem adapter_import_escapes:
  "evaluate_project missing_adapter_world =
     Inl (builtin_error ''FileNotFoundError'' ''/srv/project/db.py'') \<and>
   evaluate_project no_adapter_field_world =
     Inl (builtin_error ''TypeError''
       (''join() argument must be str, bytes, or os.PathLike object, not '' @
        apos @ ''NoneType'' @ apos))"
  by (simp add: missing_adapter_world_def no_adapter_field_world_def stage_defs py_defs world_defs)

text \<open>
  C3 as stated fails: with the CRUD file missing and the adapter file present, the second
  check earns its 10 points, so the score is 10 and not 0.
\<close>

theorem missing_crud_scores_adapter_counterexample:
  "\<not> file_exists missing_crud_world ''/srv/project/crud.py'' \<and>
   evaluate_project missing_crud_world =
     Inr (ScoreReport 10 20
       [cross_mark @ '' CRUD module missing'', check_mark @ '' DB adapter file found''])"
  by (simp add: missing_crud_world_def stage_defs py_defs world_defs)

text \<open>
  C3, amended. For every submission whose manifest is read and is valid (an object whose
  \<^verbatim>\<open>crud_module\<close> is a non-empty string, whose \<^verbatim>\<open>crud_class\<close> is truthy, whose
  \<^verbatim>\<open>db_adapter\<close> is a string and whose \<^verbatim>\<open>sample_data\<close>, when present, is an object)
  but whose CRUD module file does not exist at the named path, the report has
  \<open>max_score = 20\<close> and exactly two detail entries; the score is 10 when the adapter file
  exists and 0 when it does not.
\<close>

theorem missing_crud_file_report:
  assumes "load_metadata W = Inr m" and "valid_manifest m"
    and "\<not> file_exists W (named_path W m ''crud_module'')"
  shows "evaluate_project W =
     Inr (ScoreReport (if file_exists W (named_path W m ''db_adapter'') then 10 else 0) 20
       [cross_mark @ '' CRUD module missing'',
        if file_exists W (named_path W m ''db_adapter'')
        then check_mark @ '' DB adapter file found''
        else cross_mark @ '' DB adapter file missing''])"
proof -
  from valid_manifest_prepare [OF assms(1,2)] obtain c where
    "prepare W = Inr (Inr c)" "crud_path c = named_path W m ''crud_module''"
    "db_path c = named_path W m ''db_adapter''"
    by blast
  with assms(3) show ?thesis
    by (simp add: evaluate_project_def critical_stages_def test_file_existence_def add_def
        Score_init_def finalize_def)
qed

theorem missing_crud_file_report_witness:
  "load_metadata empty_project_world = Inr scenario_manifest \<and>
   valid_manifest scenario_manifest \<and>
   named_path empty_project_world scenario_manifest ''crud_module'' = ''/srv/project/crud.py'' \<and>
   \<not> file_exists empty_project_world ''/srv/project/crud.py'' \<and>
   evaluate_project empty_project_world =
     Inr (ScoreReport 0 20
       [cross_mark @ '' CRUD module missing'', cross_mark @ '' DB adapter file missing''])"
proof -
  have l: "load_metadata empty_project_world = Inr scenario_manifest"
    by (simp add: empty_project_world_def load_metadata_def py_defs world_defs)
  have v: "valid_manifest scenario_manifest"
    by (simp add: valid_manifest_def is_dict_def is_str_def field_def py_get_def world_defs)
  have n: "named_path empty_project_world scenario_manifest ''crud_module'' =
             ''/srv/project/crud.py''"
    "named_path empty_project_world scenario_manifest ''db_adapter'' = ''/srv/project/db.py''"
    by (simp_all add: named_path_def field_def empty_project_world_def py_defs world_defs)
  have f: "\<not> file_exists empty_project_world ''/srv/project/crud.py''"
    "\<not> file_exists empty_project_world ''/srv/project/db.py''"
    by (simp_all add: empty_project_world_def world_defs)
  from f(1) n(1) have f': "\<not> file_exists empty_project_world
      (named_path empty_project_world scenario_manifest ''crud_module'')" by simp
  from missing_crud_file_report [OF l v f'] l v n f show ?thesis by simp
qed

text \<open>
  C4, at two classes. The first answers the request for \<^verbatim>\<open>delete\<close> with an
  AttributeError once and supplies the method afterwards: the loop of lines 120-126 records
  the method as missing, the gate on line 129 asks again, finds all four, and the run goes
  on, so that the report holds a method-missing entry followed by the entries of checks 5 to
  8. In the second the request for \<^verbatim>\<open>delete\<close> raises ValueError: \<^verbatim>\<open>hasattr\<close> on line 123
  lets it through, no \<^verbatim>\<open>try\<close> is around the loop, and the run ends without a report.
\<close>

theorem recorded_missing_method_does_not_halt:
  "hasattr late_delete_crud ''delete'' (initial late_delete_crud) = (Inr False, 1) \<and>
   evaluate_project late_delete_world =
     Inr (ScoreReport 95 130
       [check_mark @ '' CRUD module found'',
        check_mark @ '' DB adapter file found'',
        check_mark @ '' CRUD class imported successfully'',
        check_mark @ '' Method create() found'',
        check_mark @ '' Method read() found'',
        check_mark @ '' Method update() found'',
        cross_mark @ '' Method delete() missing'',
        check_mark @ '' Database connection successfully sandboxed'',
        cross_mark @ '' CRUD runtime error: Traceback (most recent call last): '' @
          ''sqlite3.OperationalError: duplicate column name: id'',
        cross_mark @ '' CRUD functional test failed'',
        check_mark @ '' SQL injection protection appears safe'',
        check_mark @ '' Code is PEP8 clean'']) \<and>
   evaluate_project raising_delete_world =
     Inl (builtin_error ''ValueError'' ''delete is not available'')"
  by (simp add: late_delete_world_def raising_delete_world_def stage_defs py_defs world_defs)

text \<open>
  C6, at a candidate that concatenates the name into its INSERT. On the sample record its
  \<^verbatim>\<open>create\<close> leaves the table \<^verbatim>\<open>users\<close> in its database; on the probe's record the same
  call drops it. The candidate's database is not the one the evaluator created its table
  in and reads the catalog of (every \<^verbatim>\<open>fake_connection()\<close> is a database of its own), so
  the probe still finds its own table and reports the candidate as safe.
\<close>

theorem naive_candidate_passes_probe:
  "create_m naive_crud (PDict [(''id'', PInt 1), (''name'', PStr ''Alice'')])
     (PDict [(''id'', PInt 1), (''name'', PStr ''Alice'')], initial naive_crud) =
     (Returns (Inr True), (PDict [(''id'', PInt 1), (''name'', PStr ''Alice'')], [''users''])) \<and>
   create_m naive_crud injection_record
     (PDict [(''id'', PInt 1), (''name'', PStr ''Alice'')], initial naive_crud) =
     (Returns (Inr True), (PDict [(''id'', PInt 1), (''name'', PStr ''Alice'')], [])) \<and>
   evaluate_project naive_world =
     Inr (ScoreReport 100 130
       [check_mark @ '' CRUD module found'',
        check_mark @ '' DB adapter file found'',
        check_mark @ '' CRUD class imported successfully'',
        check_mark @ '' Method create() found'',
        check_mark @ '' Method read() found'',
        check_mark @ '' Method update() found'',
        check_mark @ '' Method delete() found'',
        check_mark @ '' Database connection successfully sandboxed'',
        cross_mark @ '' CRUD runtime error: Traceback (most recent call last): '' @
          ''sqlite3.OperationalError: duplicate column name: id'',
        cross_mark @ '' CRUD functional test failed'',
        check_mark @ '' SQL injection protection appears safe'',
        check_mark @ '' Code is PEP8 clean''])"
  by (simp add: naive_world_def stage_defs py_defs world_defs)

text \<open>
  C7, at the reference scenario with a correct, injection-safe, lint-clean candidate. The
  schema statement of the functional test lists \<^verbatim>\<open>id\<close> as the primary key and again as
  one of the sample's fields; SQLite rejects it, the functional check fails before any
  candidate method is called, and the run ends with 100 of 130. The first entry and the
  last are the ones the claim names.
\<close>

theorem scenario_scores_100_of_130:
  "schema_sql scenario_world (PStr ''users'') [''id'', ''name''] =
     ''CREATE TABLE users (id INTEGER PRIMARY KEY, id TEXT, name TEXT)'' \<and>
   evaluate_project scenario_world =
     Inr (ScoreReport 100 130
       [check_mark @ '' CRUD module found'',
        check_mark @ '' DB adapter file found'',
        check_mark @ '' CRUD class imported successfully'',
        check_mark @ '' Method create() found'',
        check_mark @ '' Method read() found'',
        check_mark @ '' Method update() found'',
        check_mark @ '' Method delete() found'',
        check_mark @ '' Database connection successfully sandboxed'',
        cross_mark @ '' CRUD runtime error: Traceback (most recent call last): '' @
          ''sqlite3.OperationalError: duplicate column name: id'',
        cross_mark @ '' CRUD functional test failed'',
        check_mark @ '' SQL injection protection appears safe'',
        check_mark @ '' Code is PEP8 clean''])"
  using scenario_run by (simp add: schema_sql_def format_value_def)




text \<open>
  C9, at an adapter module that has no \<^verbatim>\<open>get_connection\<close> while the manifest names no
  other factory: \<^verbatim>\<open>setattr\<close> on line 144 creates the attribute instead of replacing
  anything of the candidate's, nothing raises, the sandboxing check is recorded as passed
  and checks 6 to 8 are attempted.
\<close>

theorem missing_factory_still_sandboxed:
  "dynamic_import no_factory_world ''/srv/project/db.py'' = other_db_module \<and>
   projr (dynamic_import no_factory_world ''/srv/project/db.py'') ''get_connection'' = None \<and>
   py_get (meta scenario_ctx) ''db_connect_fn'' (PStr ''get_connection'') =
     Inr (PStr ''get_connection'') \<and>
   evaluate_project no_factory_world =
     Inr (ScoreReport 100 130
       [check_mark @ '' CRUD module found'',
        check_mark @ '' DB adapter file found'',
        check_mark @ '' CRUD class imported successfully'',
        check_mark @ '' Method create() found'',
        check_mark @ '' Method read() found'',
        check_mark @ '' Method update() found'',
        check_mark @ '' Method delete() found'',
        check_mark @ '' Database connection successfully sandboxed'',
        cross_mark @ '' CRUD runtime error: Traceback (most recent call last): '' @
          ''sqlite3.OperationalError: duplicate column name: id'',
        cross_mark @ '' CRUD functional test failed'',
        check_mark @ '' SQL injection protection appears safe'',
        check_mark @ '' Code is PEP8 clean''])"
  by (simp add: no_factory_world_def stage_defs py_defs world_defs)

end
